theory Spec2Isabelle
  imports Complex_Main
begin

section \<open>Numbers\<close>

text \<open>
  The program is TypeScript: every coordinate, angle, timestamp and score is a JavaScript
  number, an IEEE 754 binary64 value. Two models of numbers are used. Where a function's
  result is read for what it is up to rounding (the orientation angles, the statistics of
  the scorer, the clock of the replay), a number is a \<^typ>\<open>real\<close>: a finite value with exact
  arithmetic. The joint angle \<open>calcAngle\<close> is computed in binary64 itself, every operation
  rounded, since its properties depend on the rounding. Indices into arrays are \<^typ>\<open>nat\<close>,
  rounded scores are \<^typ>\<open>int\<close>.
\<close>

section \<open>Binary64 arithmetic\<close>

text \<open>
  A binary64 value is a finite number, an infinity or NaN. A finite number is given by its
  value; the two zeros are one value, as the sign of a zero never reaches a result of
  \<open>calcAngle\<close> (it divides by numbers other than zero only; where a zero divisor needs a
  sign below, it is the positive zero).
\<close>

datatype double = Fin real | PInf | NInf | NaN

text \<open>The integer nearest to \<open>y\<close>, the even one of the two when \<open>y\<close> lies half-way.\<close>

definition roundEven :: "real \<Rightarrow> int" where
  "roundEven y =
     (let f = \<lfloor>y\<rfloor>; d = y - of_int f
      in if d < 1 / 2 then f else if d > 1 / 2 then f + 1 else if even f then f else f + 1)"

text \<open>
  The spacing of the binary64 numbers around \<open>x\<close>: 52 binary digits below the leading
  one, and 2 to the power -1074 in the subnormal range.
\<close>

definition ulp :: "real \<Rightarrow> real" where
  "ulp x = 2 powr real_of_int (max \<lfloor>log 2 \<bar>x\<bar>\<rfloor> (- 1022) - 52)"

text \<open>Rounding a real number to the nearest multiple of the spacing, ties to even.\<close>

definition roundR :: "real \<Rightarrow> real" where
  "roundR x = (if x = 0 then 0 else sgn x * (of_int (roundEven (\<bar>x\<bar> / ulp x)) * ulp x))"

text \<open>
  The binary64 result of an operation whose exact result is \<open>x\<close>: the rounded value, or an
  infinity when the rounded value reaches 2 to the power 1024.
\<close>

definition rnd :: "real \<Rightarrow> double" where
  "rnd x =
     (let r = roundR x
      in if r \<ge> 2 ^ 1024 then PInf else if r \<le> - (2 ^ 1024) then NInf else Fin r)"

text \<open>The operators \<open>+\<close>, \<open>-\<close>, \<open>*\<close> and \<open>/\<close> on numbers.\<close>

fun fneg :: "double \<Rightarrow> double" where
  "fneg (Fin x) = Fin (- x)"
| "fneg PInf = NInf"
| "fneg NInf = PInf"
| "fneg NaN = NaN"

fun fadd :: "double \<Rightarrow> double \<Rightarrow> double" where
  "fadd (Fin x) (Fin y) = rnd (x + y)"
| "fadd NaN _ = NaN"
| "fadd _ NaN = NaN"
| "fadd PInf NInf = NaN"
| "fadd NInf PInf = NaN"
| "fadd PInf _ = PInf"
| "fadd _ PInf = PInf"
| "fadd NInf _ = NInf"
| "fadd _ NInf = NInf"

definition fsub :: "double \<Rightarrow> double \<Rightarrow> double" where
  "fsub a b = fadd a (fneg b)"

text \<open>The infinity of the sign of \<open>x\<close>, for \<open>x\<close> other than 0.\<close>

definition signedInf :: "real \<Rightarrow> double" where
  "signedInf x = (if 0 < x then PInf else NInf)"

fun fmul :: "double \<Rightarrow> double \<Rightarrow> double" where
  "fmul (Fin x) (Fin y) = rnd (x * y)"
| "fmul NaN _ = NaN"
| "fmul _ NaN = NaN"
| "fmul PInf (Fin y) = (if y = 0 then NaN else signedInf y)"
| "fmul NInf (Fin y) = (if y = 0 then NaN else signedInf (- y))"
| "fmul (Fin x) PInf = (if x = 0 then NaN else signedInf x)"
| "fmul (Fin x) NInf = (if x = 0 then NaN else signedInf (- x))"
| "fmul PInf PInf = PInf"
| "fmul PInf NInf = NInf"
| "fmul NInf PInf = NInf"
| "fmul NInf NInf = PInf"

fun fdiv :: "double \<Rightarrow> double \<Rightarrow> double" where
  "fdiv (Fin x) (Fin y) =
     (if y = 0 then (if x = 0 then NaN else signedInf x) else rnd (x / y))"
| "fdiv NaN _ = NaN"
| "fdiv _ NaN = NaN"
| "fdiv (Fin x) PInf = Fin 0"
| "fdiv (Fin x) NInf = Fin 0"
| "fdiv PInf (Fin y) = (if 0 \<le> y then PInf else NInf)"
| "fdiv NInf (Fin y) = (if 0 \<le> y then NInf else PInf)"
| "fdiv PInf PInf = NaN"
| "fdiv PInf NInf = NaN"
| "fdiv NInf PInf = NaN"
| "fdiv NInf NInf = NaN"

text \<open>
  \<open>Math.sqrt\<close>, \<open>Math.min\<close> and \<open>Math.max\<close> (of two arguments). The square root is the
  rounded exact root.
\<close>

fun mathSqrt :: "double \<Rightarrow> double" where
  "mathSqrt (Fin x) = (if x < 0 then NaN else rnd (sqrt x))"
| "mathSqrt PInf = PInf"
| "mathSqrt NInf = NaN"
| "mathSqrt NaN = NaN"

fun mathMin :: "double \<Rightarrow> double \<Rightarrow> double" where
  "mathMin NaN _ = NaN"
| "mathMin _ NaN = NaN"
| "mathMin NInf _ = NInf"
| "mathMin _ NInf = NInf"
| "mathMin PInf b = b"
| "mathMin a PInf = a"
| "mathMin (Fin x) (Fin y) = Fin (min x y)"

fun mathMax :: "double \<Rightarrow> double \<Rightarrow> double" where
  "mathMax NaN _ = NaN"
| "mathMax _ NaN = NaN"
| "mathMax PInf _ = PInf"
| "mathMax _ PInf = PInf"
| "mathMax NInf b = b"
| "mathMax a NInf = a"
| "mathMax (Fin x) (Fin y) = Fin (max x y)"

text \<open>\<open>Math.PI\<close>, the binary64 number nearest to \<open>\<pi>\<close>.\<close>

definition MathPI :: real where
  "MathPI = 884279719003555 / 2 ^ 48"

text \<open>
  \<open>Math.acos\<close>. ECMAScript leaves its precision to the implementation and fixes its range:
  NaN outside \<open>[-1, 1]\<close>, and otherwise a number from \<open>+0\<close> to \<open>\<pi>\<close>. The model is the rounded
  exact arc cosine, kept between 0 and \<open>Math.PI\<close>.
\<close>

fun mathAcos :: "double \<Rightarrow> double" where
  "mathAcos (Fin t) =
     (if t < - 1 \<or> 1 < t then NaN else Fin (min MathPI (max 0 (roundR (arccos t)))))"
| "mathAcos PInf = NaN"
| "mathAcos NInf = NaN"
| "mathAcos NaN = NaN"

text \<open>
  A number as it enters the real-valued records below: a finite number is its value. On an
  infinity or NaN this says nothing.
\<close>

primrec numberOf :: "double \<Rightarrow> real" where
  "numberOf (Fin x) = x"

section \<open>Geometry (PoseOverlay.tsx)\<close>

text \<open>A pose landmark, read through its fields \<open>x\<close> and \<open>y\<close> only.\<close>

record landmark =
  px :: real
  py :: real

text \<open>
  \<open>Math.atan2(y, x)\<close> on finite numbers: the angle of the point \<open>(x, y)\<close> in
  \<open>(-\<pi>, \<pi>]\<close>, and 0 at the origin.
\<close>

definition atan2 :: "real \<Rightarrow> real \<Rightarrow> real" where
  "atan2 y x =
     (if 0 < x then arctan (y / x)
      else if x < 0 then (if 0 \<le> y then arctan (y / x) + pi else arctan (y / x) - pi)
      else if 0 < y then pi / 2
      else if y < 0 then - (pi / 2)
      else 0)"

text \<open>
  \<open>calcAngle(a, b, c)\<close>: the angle at the vertex \<open>b\<close>, in degrees, computed in binary64 from
  the finite coordinates of the three landmarks. \<open>v ** 2\<close> is the rounded product of \<open>v\<close> with
  itself.
\<close>

definition calcAngle :: "landmark \<Rightarrow> landmark \<Rightarrow> landmark \<Rightarrow> double" where
  "calcAngle a b c =
     (let abx = fsub (Fin (px a)) (Fin (px b)); aby = fsub (Fin (py a)) (Fin (py b));
          cbx = fsub (Fin (px c)) (Fin (px b)); cby = fsub (Fin (py c)) (Fin (py b));
          dot = fadd (fmul abx cbx) (fmul aby cby);
          mag = fmul (mathSqrt (fadd (fmul abx abx) (fmul aby aby)))
                     (mathSqrt (fadd (fmul cbx cbx) (fmul cby cby)))
      in if mag = Fin 0 then Fin 0
         else fmul (mathAcos (mathMax (Fin (- 1)) (mathMin (Fin 1) (fdiv dot mag))))
                   (fdiv (Fin 180) (Fin MathPI)))"

text \<open>
  \<open>landmarks[i]\<close>: the array holds a landmark or nothing at each position, and an index
  past the end reads \<open>undefined\<close>; both are \<open>None\<close>, the falsy value the code tests for.
\<close>

definition lm :: "landmark option list \<Rightarrow> nat \<Rightarrow> landmark option" where
  "lm landmarks i = (if i < length landmarks then landmarks ! i else None)"

record AngleData =
  leftElbow :: "real option"
  rightElbow :: "real option"
  leftShoulder :: "real option"
  rightShoulder :: "real option"
  hipTilt :: "real option"
  spineTilt :: "real option"
  monomiAngle :: "real option"
  kuchiwariOffset :: "real option"

text \<open>\<open>a && b && c ? calcAngle(a, b, c) : null\<close>\<close>

definition angle3 :: "landmark option \<Rightarrow> landmark option \<Rightarrow> landmark option \<Rightarrow> real option" where
  "angle3 a b c =
     (case (a, b, c) of
        (Some a', Some b', Some c') \<Rightarrow> Some (numberOf (calcAngle a' b' c'))
      | _ \<Rightarrow> None)"

text \<open>The two successive corrections that bring the difference of degrees back into range.\<close>

definition normalizeDiff :: "real \<Rightarrow> real" where
  "normalizeDiff diff =
     (let d1 = (if diff > 180 then diff - 360 else diff)
      in if d1 < - 180 then d1 + 360 else d1)"

definition calcMonomi ::
  "landmark option \<Rightarrow> landmark option \<Rightarrow> landmark option \<Rightarrow> landmark option \<Rightarrow> real option" where
  "calcMonomi lEar rEar lShoulder rShoulder =
     (case (lEar, rEar, lShoulder, rShoulder) of
        (Some le, Some re, Some ls, Some rs) \<Rightarrow>
          (let shoulderAngleRad = atan2 (py rs - py ls) (px rs - px ls);
               earAngleRad = atan2 (py re - py le) (px re - px le)
           in Some (normalizeDiff ((earAngleRad - shoulderAngleRad) * (180 / pi))))
      | _ \<Rightarrow> None)"

definition calcHipTilt :: "landmark option \<Rightarrow> landmark option \<Rightarrow> real option" where
  "calcHipTilt lHip rHip =
     (case (lHip, rHip) of
        (Some lh, Some rh) \<Rightarrow> Some \<bar>atan2 (py rh - py lh) (px rh - px lh) * (180 / pi)\<bar>
      | _ \<Rightarrow> None)"

definition calcSpineTilt ::
  "landmark option \<Rightarrow> landmark option \<Rightarrow> landmark option \<Rightarrow> landmark option \<Rightarrow> real option" where
  "calcSpineTilt lShoulder rShoulder lHip rHip =
     (case (lShoulder, rShoulder, lHip, rHip) of
        (Some ls, Some rs, Some lh, Some rh) \<Rightarrow>
          (let sMidx = (px ls + px rs) / 2; sMidy = (py ls + py rs) / 2;
               hMidx = (px lh + px rh) / 2; hMidy = (py lh + py rh) / 2
           in Some \<bar>atan2 (sMidx - hMidx) (hMidy - sMidy) * (180 / pi)\<bar>)
      | _ \<Rightarrow> None)"

definition calcKuchiwari ::
  "landmark option \<Rightarrow> landmark option \<Rightarrow> landmark option \<Rightarrow> landmark option \<Rightarrow> real option" where
  "calcKuchiwari nose rWrist lEar rEar =
     (case (nose, rWrist, lEar, rEar) of
        (Some n, Some rw, Some le, Some re) \<Rightarrow>
          (let earMidY = (py le + py re) / 2;
               estimatedMouthY = py n + (earMidY - py n) * 0.55
           in Some (py rw - estimatedMouthY))
      | _ \<Rightarrow> None)"

definition calcKyudoAngles :: "landmark option list \<Rightarrow> AngleData" where
  "calcKyudoAngles landmarks =
     (let nose = lm landmarks 0;
          lEar = lm landmarks 7; rEar = lm landmarks 8;
          lShoulder = lm landmarks 11; rShoulder = lm landmarks 12;
          lElbow = lm landmarks 13; rElbow = lm landmarks 14;
          lWrist = lm landmarks 15; rWrist = lm landmarks 16;
          lHip = lm landmarks 23; rHip = lm landmarks 24
      in \<lparr> leftElbow = angle3 lShoulder lElbow lWrist,
           rightElbow = angle3 rShoulder rElbow rWrist,
           leftShoulder = angle3 lElbow lShoulder rShoulder,
           rightShoulder = angle3 lShoulder rShoulder rElbow,
           hipTilt = calcHipTilt lHip rHip,
           spineTilt = calcSpineTilt lShoulder rShoulder lHip rHip,
           monomiAngle = calcMonomi lEar rEar lShoulder rShoulder,
           kuchiwariOffset = calcKuchiwari nose rWrist lEar rEar \<rparr>)"

section \<open>Form scorer (VideoAnalyzer.tsx)\<close>

text \<open>
  \<open>FrameAngleData\<close>: the angles of one frame together with the frame's number
  (\<open>{ frame: current, ...angles }\<close>).
\<close>

record FrameAngleData = AngleData +
  frame :: nat

text \<open>
  The label of an item names its criterion; the labels are nine distinct constant texts,
  modelled by nine constructors in the order of the source. A comment is one of a few
  constant texts, each opening with one of three marks (passed, warning, failed); the mark
  is kept. The texts \<open>detail\<close> and \<open>ideal\<close> are constants of the criterion and are left out.
\<close>

datatype criterion =
  LeftElbowKoppo | RightElbowSettle | DrawSymmetry | HipLine | SpineLine
  | KaiStability | DrawSmoothness | Monomi | Kuchiwari

datatype mark = Passed | Warning | Failed

record EvalItem =
  label :: criterion
  score :: int
  comment :: mark

text \<open>The rank texts: the dash of an empty report, then the six tiers from the top.\<close>

datatype rank = Unrated | Dan4to5 | Dan3 | Dan2 | Dan1 | Kyu | Basics

record FormEvaluation =
  total :: int
  rank :: rank
  items :: "EvalItem list"

definition mean :: "real list \<Rightarrow> real" where
  "mean v = (if length v = 0 then 0 else foldl (\<lambda>a b. a + b) 0 v / real (length v))"

definition stddev :: "real list \<Rightarrow> real" where
  "stddev v =
     (if length v < 2 then 0
      else (let m = mean v
            in sqrt (foldl (\<lambda>a b. a + (b - m) ^ 2) 0 v / real (length v))))"

fun nn :: "real option list \<Rightarrow> real list" where
  "nn [] = []"
| "nn (None # v) = nn v"
| "nn (Some x # v) = x # nn v"

definition clamp :: "real \<Rightarrow> real \<Rightarrow> real \<Rightarrow> real" where
  "clamp v lo hi = min hi (max lo v)"

text \<open>
  \<open>Math.max(...v)\<close>, called only on a list of more than five numbers; on the empty list
  (where JavaScript gives \<open>-Infinity\<close>) the model says nothing.
\<close>

definition maxOf :: "real list \<Rightarrow> real" where
  "maxOf v = foldl max (hd v) (tl v)"

text \<open>\<open>v.slice(Math.floor(v.length * r))\<close>\<close>

definition lateSlice :: "real \<Rightarrow> real list \<Rightarrow> real list" where
  "lateSlice r v = drop (nat \<lfloor>real (length v) * r\<rfloor>) v"

text \<open>\<open>Math.round(clamp(score, 0, 100))\<close>: halves round upwards, as \<^const>\<open>round\<close> does.\<close>

definition itemScore :: "real \<Rightarrow> int" where
  "itemScore s = round (clamp s 0 100)"

text \<open>
  Each block \<open>if (enough samples) { ...; items.push(item) }\<close> of \<open>evaluateForm\<close> is a function
  to the list of the items it pushes: none or one.
\<close>

definition leftElbowItem :: "real list \<Rightarrow> EvalItem list" where
  "leftElbowItem leVals =
     (if length leVals > 5 then
        (let peak = maxOf leVals;
             s = (if peak \<ge> 160 \<and> peak \<le> 172 then 100
                  else if peak \<ge> 150 \<and> peak < 160 then 60 + (peak - 150) * 4
                  else if peak > 172 \<and> peak \<le> 178 then 100 - (peak - 172) * 10
                  else if peak > 178 then 40
                  else clamp ((peak - 120) * 2) 0 60)
         in [\<lparr> label = LeftElbowKoppo, score = itemScore s,
               comment = (if peak \<ge> 160 \<and> peak \<le> 172 then Passed
                          else if peak > 178 then Failed
                          else if peak > 172 then Warning
                          else if peak \<ge> 150 then Warning
                          else Failed) \<rparr>])
      else [])"

definition rightElbowItem :: "real list \<Rightarrow> EvalItem list" where
  "rightElbowItem reVals =
     (if length reVals > 5 then
        (let late = lateSlice 0.5 reVals; avg = mean late;
             s = (if avg \<ge> 80 \<and> avg \<le> 110 then 100
                  else if avg > 110 \<and> avg \<le> 125 then 100 - (avg - 110) * 3
                  else if avg > 125 then clamp (100 - (avg - 110) * 5) 0 55
                  else clamp (80 + (avg - 70) * 2) 0 80)
         in [\<lparr> label = RightElbowSettle, score = itemScore s,
               comment = (if avg \<ge> 80 \<and> avg \<le> 110 then Passed
                          else if avg > 125 then Failed
                          else if avg > 110 then Warning
                          else Warning) \<rparr>])
      else [])"

definition symmetryItem :: "real list \<Rightarrow> real list \<Rightarrow> EvalItem list" where
  "symmetryItem lsVals rsVals =
     (if length lsVals > 5 \<and> length rsVals > 5 then
        (let diff = \<bar>mean lsVals - mean rsVals\<bar>;
             avgStab = (stddev lsVals + stddev rsVals) / 2;
             s = clamp (100 - diff * 3) 0 100 * 0.6 + clamp (100 - avgStab * 3) 0 100 * 0.4
         in [\<lparr> label = DrawSymmetry, score = itemScore s,
               comment = (if diff \<le> 8 \<and> avgStab \<le> 10 then Passed
                          else if diff \<le> 15 then Warning
                          else Failed) \<rparr>])
      else [])"

definition hipItem :: "real list \<Rightarrow> EvalItem list" where
  "hipItem hipVals =
     (if length hipVals > 5 then
        (let s = clamp (100 - mean hipVals * 9) 0 100 * 0.65
                 + clamp (100 - stddev hipVals * 6) 0 100 * 0.35
         in [\<lparr> label = HipLine, score = itemScore s,
               comment = (if mean hipVals \<le> 4 \<and> stddev hipVals \<le> 4 then Passed
                          else if mean hipVals \<le> 7 then Warning
                          else if mean hipVals \<le> 13 then Failed
                          else Failed) \<rparr>])
      else [])"

definition spineItem :: "real list \<Rightarrow> EvalItem list" where
  "spineItem spineVals =
     (if length spineVals > 5 then
        (let s = clamp (100 - mean spineVals * 7) 0 100 * 0.65
                 + clamp (100 - stddev spineVals * 5) 0 100 * 0.35
         in [\<lparr> label = SpineLine, score = itemScore s,
               comment = (if mean spineVals \<le> 4 \<and> stddev spineVals \<le> 5 then Passed
                          else if mean spineVals \<le> 8 then Warning
                          else if mean spineVals \<le> 14 then Failed
                          else Failed) \<rparr>])
      else [])"

definition kaiItem :: "nat \<Rightarrow> real list \<Rightarrow> real list \<Rightarrow> EvalItem list" where
  "kaiItem nframes leVals reVals =
     (let lateLE = lateSlice 0.55 leVals; lateRE = lateSlice 0.55 reVals
      in if length lateLE > 5 \<and> length lateRE > 5 then
           (let avgStd = (stddev lateLE + stddev lateRE) / 2;
                kaiSec = real nframes / 30 * 0.33;
                kaiBonus = (if kaiSec \<ge> 3 then 0 else if kaiSec \<ge> 1.5 then - 10 else - 25);
                s = clamp (100 - avgStd * 5 + kaiBonus) 0 100
            in [\<lparr> label = KaiStability, score = itemScore s,
                  comment = (if avgStd \<le> 4 \<and> kaiBonus = 0 then Passed
                             else if kaiBonus = - 25 then Failed
                             else if avgStd \<le> 9 then Warning
                             else Failed) \<rparr>])
         else [])"

definition smoothnessItem :: "real list \<Rightarrow> EvalItem list" where
  "smoothnessItem leVals =
     (if length leVals > 10 then
        (let deltas = map (\<lambda>(v, p). \<bar>v - p\<bar>) (zip (tl leVals) leVals);
             s = clamp (100 - stddev deltas * 18 - max 0 (mean deltas - 1.5) * 10) 0 100
         in [\<lparr> label = DrawSmoothness, score = itemScore s,
               comment = (if s \<ge> 82 then Passed else if s \<ge> 62 then Warning else Failed) \<rparr>])
      else [])"

text \<open>
  The last two blocks also test \<open>!isNaN(avg) && !isNaN(std)\<close>. The mean and the deviation of
  finite numbers are numbers, so over \<^typ>\<open>real\<close> the test always passes.
\<close>

definition monomiItem :: "real list \<Rightarrow> EvalItem list" where
  "monomiItem monomiVals =
     (if length monomiVals > 5 then
        (let late = lateSlice 0.3 monomiVals; avg = mean late; std = stddev late;
             aScore = (if avg \<ge> 35 \<and> avg \<le> 55 then 100
                       else if avg \<ge> 25 \<and> avg < 35 then 60 + (avg - 25) * 4
                       else if avg > 55 \<and> avg \<le> 68 then 100 - (avg - 55) * 4
                       else if avg < 25 then clamp (avg * 2.4) 0 60
                       else clamp (100 - (avg - 55) * 6) 0 60);
             s = aScore * 0.65 + clamp (100 - std * 5) 0 100 * 0.35
         in [\<lparr> label = Monomi, score = itemScore s,
               comment = (if avg \<ge> 35 \<and> avg \<le> 55 \<and> std \<le> 6 then Passed
                          else if avg < 25 then Failed
                          else if avg < 35 then Warning
                          else if avg > 68 then Warning
                          else if std > 10 then Warning
                          else Warning) \<rparr>])
      else [])"

definition kuchiwariItem :: "real list \<Rightarrow> EvalItem list" where
  "kuchiwariItem kVals =
     (if length kVals > 5 then
        (let late = lateSlice 0.5 kVals; avg = mean late; std = stddev late;
             pScore = (if avg \<ge> - 0.01 \<and> avg \<le> 0.03 then 100
                       else if avg > 0.03 \<and> avg \<le> 0.07 then 100 - (avg - 0.03) * 1000
                       else if avg < - 0.01 \<and> avg \<ge> - 0.05 then 100 + (avg + 0.01) * 1000
                       else clamp (50 - \<bar>avg\<bar> * 500) 0 50);
             s = pScore * 0.7 + clamp (100 - std * 1000) 0 100 * 0.3
         in [\<lparr> label = Kuchiwari, score = itemScore s,
               comment = (if avg \<ge> - 0.01 \<and> avg \<le> 0.03 \<and> std \<le> 0.02 then Passed
                          else if avg > 0.05 then Failed
                          else if avg > 0.03 then Warning
                          else if avg < - 0.05 then Failed
                          else if avg < - 0.01 then Warning
                          else if std > 0.02 then Warning
                          else Warning) \<rparr>])
      else [])"

text \<open>The list \<open>items\<close> as it stands after the nine blocks, in the order they run.\<close>

definition collectItems :: "'a FrameAngleData_scheme list \<Rightarrow> EvalItem list" where
  "collectItems frames =
     (let leVals = nn (map leftElbow frames);
          reVals = nn (map rightElbow frames);
          lsVals = nn (map leftShoulder frames);
          rsVals = nn (map rightShoulder frames);
          hipVals = nn (map hipTilt frames);
          spineVals = nn (map spineTilt frames);
          monomiVals = nn (map monomiAngle frames);
          kVals = nn (map kuchiwariOffset frames)
      in leftElbowItem leVals @ rightElbowItem reVals @ symmetryItem lsVals rsVals
         @ hipItem hipVals @ spineItem spineVals @ kaiItem (length frames) leVals reVals
         @ smoothnessItem leVals @ monomiItem monomiVals @ kuchiwariItem kVals)"

definition rankOf :: "int \<Rightarrow> rank" where
  "rankOf t =
     (if t \<ge> 90 then Dan4to5 else if t \<ge> 78 then Dan3 else if t \<ge> 65 then Dan2
      else if t \<ge> 52 then Dan1 else if t \<ge> 38 then Kyu else Basics)"

definition neutralReport :: FormEvaluation where
  "neutralReport = \<lparr> total = 0, rank = Unrated, items = [] \<rparr>"

definition evaluateForm :: "'a FrameAngleData_scheme list \<Rightarrow> FormEvaluation" where
  "evaluateForm frames =
     (if length frames = 0 then neutralReport
      else (let its = collectItems frames
            in if length its = 0 then neutralReport
               else (let t = round (foldl (\<lambda>a b. a + real_of_int (score b)) 0 its
                                      / real (length its))
                     in \<lparr> total = t, rank = rankOf t, items = its \<rparr>)))"

section \<open>Replay (VideoAnalyzer.tsx)\<close>

text \<open>A stored frame; its field \<open>frame\<close> is named \<open>frameNo\<close> here.\<close>

record StoredFrame =
  frameNo :: nat
  timeMs :: real
  landmarks :: "landmark option list"

text \<open>
  Each call of \<open>startReplay\<close> creates a function \<open>loop\<close> closed over the buffer \<open>stored\<close>,
  the parameter \<open>speed\<close> and the two variables \<open>lastRealTime\<close> and \<open>lastFrameTime\<close>.
  The closure is the record of these four.
\<close>

record loopClosure =
  stored :: "StoredFrame list"
  speed :: real
  lastRealTime :: "real option"
  lastFrameTime :: real

text \<open>
  The part of the component that the replay reads and writes. \<open>replayRaf\<close> is the callback
  waiting for the next animation frame, if there is one: \<open>requestAnimationFrame(loop)\<close> sets
  it, \<open>cancelAnimationFrame\<close> and the firing of the callback clear it. \<open>canvasOk\<close>, \<open>videoOk\<close>
  and \<open>ctxOk\<close> say that \<open>canvasRef.current\<close>, \<open>videoRef.current\<close> and
  \<open>canvas.getContext('2d')\<close> are not null. \<open>videoTimeMs\<close> is \<open>video.currentTime\<close> in
  milliseconds. React state setters are taken to act at once. What is drawn on the canvas is
  not part of the state.
\<close>

record replay =
  storedFrames :: "StoredFrame list"
  canvasOk :: bool
  videoOk :: bool
  ctxOk :: bool
  isReplaying :: bool
  replayPaused :: bool
  replaySpeed :: real
  replayFrame :: nat
  replayIdxRef :: nat
  replayPausedRef :: bool
  replayRaf :: "loopClosure option"
  videoTimeMs :: real

definition stopReplay :: "replay \<Rightarrow> replay" where
  "stopReplay st =
     st\<lparr> replayRaf := None, isReplaying := False, replayPaused := False,
         replayPausedRef := False \<rparr>"

text \<open>
  \<open>while (nextIdx < stored.length-1 && stored[nextIdx].timeMs <= lastFrameTime) nextIdx++\<close>.
  The first test is written \<open>nextIdx + 1 < length\<close>, which is the same on integers and
  stays so on \<^typ>\<open>nat\<close> when the buffer is empty.
\<close>

function advance :: "StoredFrame list \<Rightarrow> real \<Rightarrow> nat \<Rightarrow> nat" where
  "advance sto t nextIdx =
     (if nextIdx + 1 < length sto \<and> timeMs (sto ! nextIdx) \<le> t
      then advance sto t (nextIdx + 1) else nextIdx)"
  by pat_completeness auto
termination
  by (relation "measure (\<lambda>(sto, t, nextIdx). length sto - nextIdx)") auto

declare advance.simps [simp del]

text \<open>One run of the callback \<open>loop(now)\<close> of the closure \<open>cl\<close>.\<close>

definition loop :: "loopClosure \<Rightarrow> real \<Rightarrow> replay \<Rightarrow> replay" where
  "loop cl now st =
     (if replayPausedRef st then st\<lparr> replayRaf := Some cl \<rparr>
      else (let idx = replayIdxRef st
            in if idx \<ge> length (stored cl) then stopReplay st
               else (let lrt = (case lastRealTime cl of None \<Rightarrow> now | Some t \<Rightarrow> t);
                         realElapsed = now - lrt;
                         lft = lastFrameTime cl + realElapsed * speed cl;
                         nextIdx = advance (stored cl) lft idx
                     in st\<lparr> replayIdxRef := nextIdx, replayFrame := nextIdx,
                            videoTimeMs := timeMs (stored cl ! nextIdx),
                            replayRaf := Some (cl\<lparr> lastRealTime := Some now,
                                                    lastFrameTime := lft \<rparr>) \<rparr>)))"

definition startReplay :: "nat \<Rightarrow> real \<Rightarrow> replay \<Rightarrow> replay" where
  "startReplay startIdx spd st =
     (if \<not> canvasOk st \<or> \<not> videoOk st \<or> length (storedFrames st) = 0 then st
      else (let st1 = st\<lparr> replayRaf := None, replayIdxRef := startIdx, isReplaying := True,
                           replayPaused := False, replayPausedRef := False \<rparr>
            in if \<not> ctxOk st then st1
               else st1\<lparr> replayRaf := Some \<lparr> stored = storedFrames st, speed = spd,
                              lastRealTime = None,
                              lastFrameTime = (if startIdx < length (storedFrames st)
                                               then timeMs (storedFrames st ! startIdx)
                                               else 0) \<rparr> \<rparr>))"

definition toggleReplayPause :: "replay \<Rightarrow> replay" where
  "toggleReplayPause st =
     (let next = \<not> replayPausedRef st
      in st\<lparr> replayPausedRef := next, replayPaused := next \<rparr>)"

definition handleSeek :: "nat \<Rightarrow> replay \<Rightarrow> replay" where
  "handleSeek idx st =
     (let st1 = st\<lparr> replayIdxRef := idx, replayFrame := idx \<rparr>
      in if \<not> canvasOk st \<or> \<not> videoOk st \<or> \<not> idx < length (storedFrames st) then st1
         else if \<not> ctxOk st then st1
         else st1\<lparr> videoTimeMs := timeMs (storedFrames st ! idx) \<rparr>)"

text \<open>
  What can happen to the component during a replay: an animation frame at time \<open>now\<close>, or
  one of the controls of the panel (the play button, the pause button, the stop button, a
  speed button, a move of the seek bar, a press on the seek bar).
\<close>

datatype event =
  Tick real | Play | TogglePause | Stop | SetSpeed real | Seek nat | SeekMouseDown

fun step :: "replay \<Rightarrow> event \<Rightarrow> replay" where
  "step st (Tick now) =
     (case replayRaf st of
        None \<Rightarrow> st
      | Some cl \<Rightarrow> loop cl now (st\<lparr> replayRaf := None \<rparr>))"
| "step st Play = (if \<not> isReplaying st then startReplay 0 (replaySpeed st) st else st)"
| "step st TogglePause = (if isReplaying st then toggleReplayPause st else st)"
| "step st Stop = (if isReplaying st then stopReplay st else st)"
| "step st (SetSpeed s) =
     (let st1 = st\<lparr> replaySpeed := s \<rparr>
      in if isReplaying st then startReplay (replayIdxRef st) s st1 else st1)"
| "step st (Seek idx) = handleSeek idx st"
| "step st SeekMouseDown =
     (if \<not> isReplaying st
      then (startReplay 0 (replaySpeed st) st)\<lparr> replayPausedRef := True, replayPaused := True \<rparr>
      else st)"

definition run :: "replay \<Rightarrow> event list \<Rightarrow> replay" where
  "run st evs = foldl step st evs"

text \<open>The component once the analysis of a video is done and \<open>frames\<close> were stored.\<close>

definition afterAnalysis :: "StoredFrame list \<Rightarrow> replay" where
  "afterAnalysis frames =
     \<lparr> storedFrames = frames, canvasOk = True, videoOk = True, ctxOk = True,
       isReplaying = False, replayPaused = False, replaySpeed = 1, replayFrame = 0,
       replayIdxRef = 0, replayPausedRef = False, replayRaf = None, videoTimeMs = 0 \<rparr>"

text \<open>A buffer of frames with empty landmark lists at the given timestamps.\<close>

definition framesAt :: "real list \<Rightarrow> StoredFrame list" where
  "framesAt ts =
     map (\<lambda>(i, t). \<lparr> frameNo = i, timeMs = t, landmarks = [] \<rparr>) (zip [0..<length ts] ts)"

section \<open>Notions used to state the properties\<close>





text \<open>The number of frames in which a metric is available.\<close>

definition validCount ::
  "('a FrameAngleData_scheme \<Rightarrow> real option) \<Rightarrow> 'a FrameAngleData_scheme list \<Rightarrow> nat" where
  "validCount metric frames = length (nn (map metric frames))"

text \<open>The criteria that a report holds an item for.\<close>

definition reportLabels :: "'a FrameAngleData_scheme list \<Rightarrow> criterion set" where
  "reportLabels frames = set (map label (items (evaluateForm frames)))"

section \<open>Concrete inputs\<close>








text \<open>
  Landmarks 7, 8, 11 and 12 (the ears and the shoulders) alone: the ear line points to
  the right, the shoulder line to the left.
\<close>

definition oppositeLines :: "landmark option list" where
  "oppositeLines =
     [None, None, None, None, None, None, None,
      Some \<lparr> px = 0, py = 0 \<rparr>, Some \<lparr> px = 1, py = 0 \<rparr>, None, None,
      Some \<lparr> px = 1, py = 0 \<rparr>, Some \<lparr> px = 0, py = 0 \<rparr>]"

text \<open>A frame in which no metric is available.\<close>

definition noAngles :: FrameAngleData where
  "noAngles =
     \<lparr> leftElbow = None, rightElbow = None, leftShoulder = None, rightShoulder = None,
       hipTilt = None, spineTilt = None, monomiAngle = None, kuchiwariOffset = None,
       frame = 0 \<rparr>"

text \<open>Six frames with a left elbow angle of 165 degrees and nothing else.\<close>

definition sixElbowFrames :: "FrameAngleData list" where
  "sixElbowFrames =
     map (\<lambda>i. noAngles\<lparr> leftElbow := Some 165, frame := i \<rparr>) [0, 1, 2, 3, 4, 5]"

definition threeFrames :: "StoredFrame list" where
  "threeFrames = framesAt [0, 33, 66]"

definition tenFrames :: "StoredFrame list" where
  "tenFrames = framesAt [0, 100, 200, 300, 400, 500, 600, 700, 800, 900]"

text \<open>
  A replay is started and runs for two animation frames, 16 ms apart; then it is paused,
  three animation frames pass during some five seconds, and it is resumed.
\<close>

definition beforePause :: "event list" where
  "beforePause = [Play, Tick 1000, Tick 1016]"

definition pausedWait :: "event list" where
  "pausedWait = [TogglePause, Tick 1032, Tick 3500, Tick 6000, TogglePause]"


text \<open>
  A replay that goes on: it is marked as replaying, its index is inside the buffer and its
  callback is scheduled.
\<close>

definition playing :: "StoredFrame list \<Rightarrow> replay \<Rightarrow> bool" where
  "playing frames st =
     (isReplaying st \<and> replayIdxRef st < length frames
      \<and> (case replayRaf st of None \<Rightarrow> False | Some cl \<Rightarrow> stored cl = frames))"

section \<open>Geometry: lemmas\<close>

lemma atan2_bounds: "- pi < atan2 y x \<and> atan2 y x \<le> pi"
proof -
  have a: "- (pi / 2) < arctan (y / x)" "arctan (y / x) < pi / 2"
    using arctan_bounded [of "y / x"] by auto
  have b: "x < 0 \<Longrightarrow> 0 \<le> y \<Longrightarrow> arctan (y / x) \<le> 0"
    by (simp add: divide_nonneg_neg)
  have c: "x < 0 \<Longrightarrow> y < 0 \<Longrightarrow> 0 < arctan (y / x)"
    by (simp add: divide_neg_neg)
  show ?thesis
    using a b c pi_gt_zero unfolding atan2_def by (auto simp: not_less)
qed

lemma degrees_bounds:
  assumes "- pi < a" "a \<le> pi" "- pi < b" "b \<le> pi"
  shows "- 360 < (a - b) * (180 / pi) \<and> (a - b) * (180 / pi) < 360"
proof -
  have "- (2 * pi) < a - b" "a - b < 2 * pi" using assms by auto
  then show ?thesis using pi_gt_zero by (simp add: field_simps)
qed

lemma normalizeDiff_cases:
  "normalizeDiff d = (if d > 180 then d - 360 else if d < - 180 then d + 360 else d)"
  unfolding normalizeDiff_def Let_def by auto

lemma normalizeDiff_range:
  assumes "- 360 < d" "d < 360"
  shows "- 180 \<le> normalizeDiff d \<and> normalizeDiff d \<le> 180"
  using assms unfolding normalizeDiff_def Let_def by auto

subsection \<open>Rounding\<close>



lemma roundEven_near: "\<bar>y - of_int n\<bar> < 1 / 2 \<Longrightarrow> roundEven y = n"
proof -
  assume h: "\<bar>y - of_int n\<bar> < 1 / 2"
  show ?thesis
  proof (cases "of_int n \<le> y")
    case True
    then have "\<lfloor>y\<rfloor> = n" using h by (intro floor_unique) auto
    then show ?thesis using h True by (simp add: roundEven_def Let_def)
  next
    case False
    then have fl: "\<lfloor>y\<rfloor> = n - 1" using h by (intro floor_unique) auto
    have "y - of_int (n - 1) > 1 / 2" using h False by auto
    then show ?thesis using fl by (simp add: roundEven_def Let_def)
  qed
qed

lemma roundEven_of_int: "roundEven (of_int n) = n"
  by (rule roundEven_near) simp












lemma fadd_commute: "fadd a b = fadd b a"
  by (cases a; cases b) (simp_all add: add.commute)















subsection \<open>The joint angle\<close>




lemma clamp_cases:
  "mathMax (Fin (- 1)) (mathMin (Fin 1) q) = NaN
   \<or> (\<exists>t. mathMax (Fin (- 1)) (mathMin (Fin 1) q) = Fin t \<and> - 1 \<le> t \<and> t \<le> 1)"
  by (cases q) auto














text \<open>
  C8, as stated, asks for a head-rotation angle in the half-open interval \<open>(-180, 180]\<close>.
  With the ear line pointing right and the shoulder line pointing left the four landmarks
  are present and the angle is \<open>-180\<close>, which is not above \<open>-180\<close>.
\<close>

theorem monomi_half_open_counterexample:
  "lm oppositeLines 7 \<noteq> None \<and> lm oppositeLines 8 \<noteq> None
   \<and> lm oppositeLines 11 \<noteq> None \<and> lm oppositeLines 12 \<noteq> None
   \<and> monomiAngle (calcKyudoAngles oppositeLines) = Some (- 180)
   \<and> \<not> (- 180 < (- 180 :: real))"
  by (simp add: oppositeLines_def calcKyudoAngles_def lm_def calcMonomi_def atan2_def
      normalizeDiff_def Let_def)

text \<open>
  C8, amended. When both ears and both shoulders are present, the head-rotation angle is
  the difference \<open>d\<close> of the ear-line and the shoulder-line orientation (each the \<open>atan2\<close> of the
  right-minus-left vector) in degrees, lowered by 360 when \<open>d > 180\<close> and raised by 360
  when \<open>d < -180\<close>; it lies in the closed interval \<open>[-180, 180]\<close>.
\<close>

theorem monomi_closed_range:
  assumes "lm L 7 = Some lEar" "lm L 8 = Some rEar"
    and "lm L 11 = Some lShoulder" "lm L 12 = Some rShoulder"
  shows "\<exists>m. monomiAngle (calcKyudoAngles L) = Some m
           \<and> m = (let d = (atan2 (py rEar - py lEar) (px rEar - px lEar)
                            - atan2 (py rShoulder - py lShoulder) (px rShoulder - px lShoulder))
                           * (180 / pi)
                  in if d > 180 then d - 360 else if d < - 180 then d + 360 else d)
           \<and> - 180 \<le> m \<and> m \<le> 180"
proof -
  let ?e = "atan2 (py rEar - py lEar) (px rEar - px lEar)"
  let ?s = "atan2 (py rShoulder - py lShoulder) (px rShoulder - px lShoulder)"
  let ?d = "(?e - ?s) * (180 / pi)"
  have val: "monomiAngle (calcKyudoAngles L) = Some (normalizeDiff ?d)"
    using assms by (simp add: calcKyudoAngles_def calcMonomi_def Let_def)
  have "- 360 < ?d \<and> ?d < 360"
    using atan2_bounds [of "py rEar - py lEar" "px rEar - px lEar"]
      atan2_bounds [of "py rShoulder - py lShoulder" "px rShoulder - px lShoulder"]
    by (intro degrees_bounds) auto
  then have rng: "- 180 \<le> normalizeDiff ?d \<and> normalizeDiff ?d \<le> 180"
    using normalizeDiff_range by blast
  show ?thesis using val rng normalizeDiff_cases [of ?d] by (simp add: Let_def)
qed

text \<open>
  The four landmarks of the concrete input, and its angle inside the closed interval.
\<close>

theorem monomi_closed_range_witness:
  "lm oppositeLines 7 = Some \<lparr> px = 0, py = 0 \<rparr> \<and> lm oppositeLines 8 = Some \<lparr> px = 1, py = 0 \<rparr>
   \<and> lm oppositeLines 11 = Some \<lparr> px = 1, py = 0 \<rparr> \<and> lm oppositeLines 12 = Some \<lparr> px = 0, py = 0 \<rparr>
   \<and> (\<exists>m. monomiAngle (calcKyudoAngles oppositeLines) = Some m \<and> - 180 \<le> m \<and> m \<le> 180)"
proof -
  have h: "lm oppositeLines 7 = Some \<lparr> px = 0, py = 0 \<rparr>" "lm oppositeLines 8 = Some \<lparr> px = 1, py = 0 \<rparr>"
    "lm oppositeLines 11 = Some \<lparr> px = 1, py = 0 \<rparr>" "lm oppositeLines 12 = Some \<lparr> px = 0, py = 0 \<rparr>"
    by (simp_all add: oppositeLines_def lm_def)
  show ?thesis using h monomi_closed_range [OF h] by blast
qed


section \<open>Form scorer: lemmas\<close>

lemma foldl_add_sum: "foldl (\<lambda>a b. a + f b) (z::real) xs = z + sum_list (map f xs)"
  by (induction xs arbitrary: z) simp_all

lemma floor_55: "nat \<lfloor>real n * 0.55\<rfloor> = (11 * n) div 20"
proof -
  have "real n * 0.55 = real (11 * n) / real 20" by simp
  then have "\<lfloor>real n * 0.55\<rfloor> = int ((11 * n) div 20)"
    by (simp only: floor_divide_of_nat_eq)
  then show ?thesis by simp
qed

lemma hold_phase_threshold: "(5 < length (lateSlice 0.55 v)) = (11 < length v)"
proof -
  have "length (lateSlice 0.55 v) = length v - (11 * length v) div 20"
    unfolding lateSlice_def by (simp only: length_drop floor_55)
  then show ?thesis by linarith
qed

lemma collectItems_Nil: "collectItems [] = []"
  by (simp add: collectItems_def leftElbowItem_def rightElbowItem_def symmetryItem_def
      hipItem_def spineItem_def kaiItem_def smoothnessItem_def monomiItem_def
      kuchiwariItem_def lateSlice_def)

lemma items_evaluateForm: "items (evaluateForm frames) = collectItems frames"
  by (simp add: evaluateForm_def neutralReport_def Let_def collectItems_Nil)

lemma label_leftElbowItem:
  "map label (leftElbowItem v) = (if 5 < length v then [LeftElbowKoppo] else [])"
  by (simp add: leftElbowItem_def Let_def)

lemma label_rightElbowItem:
  "map label (rightElbowItem v) = (if 5 < length v then [RightElbowSettle] else [])"
  by (simp add: rightElbowItem_def Let_def)

lemma label_symmetryItem:
  "map label (symmetryItem v w)
     = (if 5 < length v \<and> 5 < length w then [DrawSymmetry] else [])"
  by (simp add: symmetryItem_def Let_def)

lemma label_hipItem: "map label (hipItem v) = (if 5 < length v then [HipLine] else [])"
  by (simp add: hipItem_def Let_def)

lemma label_spineItem: "map label (spineItem v) = (if 5 < length v then [SpineLine] else [])"
  by (simp add: spineItem_def Let_def)

lemma label_kaiItem:
  "map label (kaiItem n v w)
     = (if 11 < length v \<and> 11 < length w then [KaiStability] else [])"
  unfolding kaiItem_def Let_def hold_phase_threshold by simp

lemma label_smoothnessItem:
  "map label (smoothnessItem v) = (if 10 < length v then [DrawSmoothness] else [])"
  by (simp add: smoothnessItem_def Let_def)

lemma label_monomiItem: "map label (monomiItem v) = (if 5 < length v then [Monomi] else [])"
  by (simp add: monomiItem_def Let_def)

lemma label_kuchiwariItem:
  "map label (kuchiwariItem v) = (if 5 < length v then [Kuchiwari] else [])"
  by (simp add: kuchiwariItem_def Let_def)

lemma labels_collectItems:
  "map label (collectItems frames) =
     (if 5 < validCount leftElbow frames then [LeftElbowKoppo] else [])
     @ (if 5 < validCount rightElbow frames then [RightElbowSettle] else [])
     @ (if 5 < validCount leftShoulder frames \<and> 5 < validCount rightShoulder frames
        then [DrawSymmetry] else [])
     @ (if 5 < validCount hipTilt frames then [HipLine] else [])
     @ (if 5 < validCount spineTilt frames then [SpineLine] else [])
     @ (if 11 < validCount leftElbow frames \<and> 11 < validCount rightElbow frames
        then [KaiStability] else [])
     @ (if 10 < validCount leftElbow frames then [DrawSmoothness] else [])
     @ (if 5 < validCount monomiAngle frames then [Monomi] else [])
     @ (if 5 < validCount kuchiwariOffset frames then [Kuchiwari] else [])"
  unfolding collectItems_def Let_def validCount_def map_append
    label_leftElbowItem label_rightElbowItem label_symmetryItem label_hipItem label_spineItem
    label_kaiItem label_smoothnessItem label_monomiItem label_kuchiwariItem
  by (rule refl)

lemma validCount_sixElbowFrames: "validCount leftElbow sixElbowFrames = 6"
  by (simp add: validCount_def sixElbowFrames_def noAngles_def)

lemma collectItems_sixElbowFrames:
  "collectItems sixElbowFrames = [\<lparr> label = LeftElbowKoppo, score = 100, comment = Passed \<rparr>]"
  by (simp add: sixElbowFrames_def noAngles_def collectItems_def leftElbowItem_def
      rightElbowItem_def symmetryItem_def hipItem_def spineItem_def kaiItem_def
      smoothnessItem_def monomiItem_def kuchiwariItem_def lateSlice_def maxOf_def
      itemScore_def clamp_def)

text \<open>
  C6. Evaluating the empty sequence gives the report with score 0, the rank of an unrated
  form and no items. \<open>evaluateForm\<close> is a total function: there is no input on which it fails.
\<close>

theorem evaluate_empty:
  "evaluateForm ([] :: FrameAngleData list) = \<lparr> total = 0, rank = Unrated, items = [] \<rparr>"
  by (simp add: evaluateForm_def neutralReport_def)

text \<open>
  C3, as stated, gives every criterion the threshold of more than 5 valid samples. Six frames
  with a left elbow angle have more than 5 valid samples of the metric that the
  draw-smoothness criterion reads, and the report has no draw-smoothness item.
\<close>

theorem smoothness_threshold_counterexample:
  "5 < validCount leftElbow sixElbowFrames \<and> DrawSmoothness \<notin> reportLabels sixElbowFrames"
  by (simp add: reportLabels_def items_evaluateForm collectItems_sixElbowFrames
      validCount_sixElbowFrames)

text \<open>
  C3, amended. A criterion has an item in the report exactly when: its metric has more than
  5 valid samples (left elbow, right elbow, hip line, spine line, head rotation, wrist
  height); both shoulder metrics have more than 5 valid samples (symmetry); both elbow
  metrics have more than 11 valid samples, which is when the slices from position
  \<open>floor(0.55 n)\<close> on hold more than 5 (hold stability); the left elbow has more than 10
  valid samples (draw smoothness). A criterion below its threshold has no item at all.
\<close>

theorem criteria_included_iff:
  "(LeftElbowKoppo \<in> reportLabels frames) = (5 < validCount leftElbow frames)
   \<and> (RightElbowSettle \<in> reportLabels frames) = (5 < validCount rightElbow frames)
   \<and> (DrawSymmetry \<in> reportLabels frames)
       = (5 < validCount leftShoulder frames \<and> 5 < validCount rightShoulder frames)
   \<and> (HipLine \<in> reportLabels frames) = (5 < validCount hipTilt frames)
   \<and> (SpineLine \<in> reportLabels frames) = (5 < validCount spineTilt frames)
   \<and> (KaiStability \<in> reportLabels frames)
       = (11 < validCount leftElbow frames \<and> 11 < validCount rightElbow frames)
   \<and> (DrawSmoothness \<in> reportLabels frames) = (10 < validCount leftElbow frames)
   \<and> (Monomi \<in> reportLabels frames) = (5 < validCount monomiAngle frames)
   \<and> (Kuchiwari \<in> reportLabels frames) = (5 < validCount kuchiwariOffset frames)"
  unfolding reportLabels_def items_evaluateForm labels_collectItems by simp

text \<open>
  On the six frames above the left-elbow criterion is the only one in the report.
\<close>

theorem criteria_included_iff_witness:
  "reportLabels sixElbowFrames = {LeftElbowKoppo}"
proof -
  have "c \<in> reportLabels sixElbowFrames \<longleftrightarrow> c = LeftElbowKoppo" for c
    using criteria_included_iff [of sixElbowFrames]
    by (cases c) (simp_all add: validCount_def sixElbowFrames_def noAngles_def)
  then show ?thesis by auto
qed

text \<open>
  C5. When the report has at least one item, its overall score is the sum of the item
  scores divided by their number, rounded to the nearest integer, and its rank is read off
  that score by the bands 90, 78, 65, 52 and 38.
\<close>

theorem overall_score_and_rank:
  assumes "items (evaluateForm frames) \<noteq> []"
  shows "total (evaluateForm frames)
           = round (sum_list (map (\<lambda>i. real_of_int (score i)) (items (evaluateForm frames)))
                    / real (length (items (evaluateForm frames))))
         \<and> rank (evaluateForm frames)
           = (let t = total (evaluateForm frames)
              in if t \<ge> 90 then Dan4to5 else if t \<ge> 78 then Dan3 else if t \<ge> 65 then Dan2
                 else if t \<ge> 52 then Dan1 else if t \<ge> 38 then Kyu else Basics)"
proof -
  have ne: "collectItems frames \<noteq> []" using assms by (simp add: items_evaluateForm)
  then have fr: "frames \<noteq> []" using collectItems_Nil by auto
  show ?thesis using ne fr
    by (simp add: evaluateForm_def Let_def rankOf_def foldl_add_sum)
qed

text \<open>
  The six frames above give one item of score 100, hence the score 100 and the top rank.
\<close>

theorem overall_score_and_rank_witness:
  "items (evaluateForm sixElbowFrames) \<noteq> []
   \<and> total (evaluateForm sixElbowFrames) = 100 \<and> rank (evaluateForm sixElbowFrames) = Dan4to5"
proof -
  have h: "items (evaluateForm sixElbowFrames) \<noteq> []"
    by (simp add: items_evaluateForm collectItems_sixElbowFrames)
  show ?thesis using h overall_score_and_rank [OF h]
    by (simp add: items_evaluateForm collectItems_sixElbowFrames)
qed

text \<open>
  C10. For a non-empty sequence in which no criterion reaches its threshold, the report is
  the one of the empty sequence: score 0, unrated, no items. (With at most 5 valid left
  elbow samples, the thresholds of hold stability and draw smoothness are not reached
  either.)
\<close>

theorem no_items_neutral_report:
  assumes "frames \<noteq> []"
    and "\<not> 5 < validCount leftElbow frames" "\<not> 5 < validCount rightElbow frames"
    and "\<not> (5 < validCount leftShoulder frames \<and> 5 < validCount rightShoulder frames)"
    and "\<not> 5 < validCount hipTilt frames" "\<not> 5 < validCount spineTilt frames"
    and "\<not> 5 < validCount monomiAngle frames" "\<not> 5 < validCount kuchiwariOffset frames"
  shows "evaluateForm frames = \<lparr> total = 0, rank = Unrated, items = [] \<rparr>"
proof -
  have "map label (collectItems frames) = []"
    unfolding labels_collectItems using assms by auto
  then have "collectItems frames = []" by simp
  then show ?thesis by (simp add: evaluateForm_def neutralReport_def)
qed

text \<open>
  A single frame without any metric.
\<close>

theorem no_items_neutral_report_witness:
  "[noAngles] \<noteq> [] \<and> \<not> 5 < validCount leftElbow [noAngles]
   \<and> \<not> 5 < validCount rightElbow [noAngles]
   \<and> \<not> (5 < validCount leftShoulder [noAngles] \<and> 5 < validCount rightShoulder [noAngles])
   \<and> \<not> 5 < validCount hipTilt [noAngles] \<and> \<not> 5 < validCount spineTilt [noAngles]
   \<and> \<not> 5 < validCount monomiAngle [noAngles] \<and> \<not> 5 < validCount kuchiwariOffset [noAngles]
   \<and> evaluateForm [noAngles] = \<lparr> total = 0, rank = Unrated, items = [] \<rparr>"
proof -
  have h: "[noAngles] \<noteq> []" "\<not> 5 < validCount leftElbow [noAngles]"
    "\<not> 5 < validCount rightElbow [noAngles]"
    "\<not> (5 < validCount leftShoulder [noAngles] \<and> 5 < validCount rightShoulder [noAngles])"
    "\<not> 5 < validCount hipTilt [noAngles]" "\<not> 5 < validCount spineTilt [noAngles]"
    "\<not> 5 < validCount monomiAngle [noAngles]" "\<not> 5 < validCount kuchiwariOffset [noAngles]"
    by (simp_all add: validCount_def noAngles_def)
  show ?thesis using h no_items_neutral_report [OF h] by blast
qed


section \<open>Replay: lemmas\<close>

lemma threeFrames_eq:
  "threeFrames =
     [\<lparr> frameNo = 0, timeMs = 0, landmarks = [] \<rparr>, \<lparr> frameNo = 1, timeMs = 33, landmarks = [] \<rparr>,
      \<lparr> frameNo = 2, timeMs = 66, landmarks = [] \<rparr>]"
  by (simp add: threeFrames_def framesAt_def upt_rec)

lemma tenFrames_eq:
  "tenFrames =
     [\<lparr> frameNo = 0, timeMs = 0, landmarks = [] \<rparr>, \<lparr> frameNo = 1, timeMs = 100, landmarks = [] \<rparr>,
      \<lparr> frameNo = 2, timeMs = 200, landmarks = [] \<rparr>, \<lparr> frameNo = 3, timeMs = 300, landmarks = [] \<rparr>,
      \<lparr> frameNo = 4, timeMs = 400, landmarks = [] \<rparr>, \<lparr> frameNo = 5, timeMs = 500, landmarks = [] \<rparr>,
      \<lparr> frameNo = 6, timeMs = 600, landmarks = [] \<rparr>, \<lparr> frameNo = 7, timeMs = 700, landmarks = [] \<rparr>,
      \<lparr> frameNo = 8, timeMs = 800, landmarks = [] \<rparr>, \<lparr> frameNo = 9, timeMs = 900, landmarks = [] \<rparr>]"
  by (simp add: tenFrames_def framesAt_def upt_rec)


lemma advance_lt: "idx < length sto \<Longrightarrow> advance sto t idx < length sto"
proof (induction sto t idx rule: advance.induct)
  case (1 sto t nextIdx)
  show ?case
  proof (cases "nextIdx + 1 < length sto \<and> timeMs (sto ! nextIdx) \<le> t")
    case True
    then have "advance sto t (nextIdx + 1) < length sto" using "1.IH" by simp
    then show ?thesis using True by (subst advance.simps) simp
  next
    case False
    then show ?thesis using "1.prems" by (subst advance.simps) auto
  qed
qed

text \<open>Where the search stops: at the last frame, or at a frame later than the time sought.\<close>

lemma advance_stops:
  "idx < length sto \<Longrightarrow>
     advance sto t idx + 1 = length sto \<or> t < timeMs (sto ! advance sto t idx)"
proof (induction sto t idx rule: advance.induct)
  case (1 sto t nextIdx)
  show ?case
  proof (cases "nextIdx + 1 < length sto \<and> timeMs (sto ! nextIdx) \<le> t")
    case True
    then have "advance sto t (nextIdx + 1) + 1 = length sto
        \<or> t < timeMs (sto ! advance sto t (nextIdx + 1))"
      using "1.IH" by simp
    then show ?thesis using True by (subst (1 2) advance.simps) simp
  next
    case False
    then show ?thesis using "1.prems" by (subst (1 2) advance.simps) auto
  qed
qed


text \<open>An animation frame during a pause changes nothing, the measured time included.\<close>

lemma paused_tick_unchanged:
  "replayPausedRef st \<Longrightarrow> step st (Tick now) = st"
  by (cases "replayRaf st") (simp_all add: loop_def)

lemma playing_tick: "playing frames st \<Longrightarrow> playing frames (step st (Tick now))"
  by (cases "replayRaf st")
    (auto simp: playing_def loop_def Let_def advance_lt split: option.splits)

lemma playing_ticks: "playing frames st \<Longrightarrow> playing frames (run st (map Tick nows))"
  unfolding run_def
proof (induction nows arbitrary: st)
  case Nil
  then show ?case by simp
next
  case (Cons now nows)
  have "playing frames (step st (Tick now))" using Cons.prems by (rule playing_tick)
  then have "playing frames (foldl step (step st (Tick now)) (map Tick nows))"
    by (rule Cons.IH)
  then show ?case by (simp only: list.map foldl_Cons)
qed

lemma playing_after_Play:
  "frames \<noteq> [] \<Longrightarrow> playing frames (step (afterAnalysis frames) Play)"
  by (simp add: playing_def afterAnalysis_def startReplay_def)

text \<open>
  Whatever the buffer and the times of the animation frames, a replay started with the
  play button and left alone never leaves the replaying state: the search for the next
  index stops below the length of the buffer, so the test \<open>idx >= stored.length\<close> that
  leads to \<open>stopReplay\<close> never succeeds.
\<close>

lemma replay_never_finishes:
  assumes "frames \<noteq> []"
  shows "isReplaying (run (afterAnalysis frames) (Play # map Tick nows))
         \<and> replayRaf (run (afterAnalysis frames) (Play # map Tick nows)) \<noteq> None"
proof -
  have "playing frames (run (step (afterAnalysis frames) Play) (map Tick nows))"
    using assms by (intro playing_ticks playing_after_Play)
  then show ?thesis by (auto simp: playing_def run_def split: option.splits)
qed

text \<open>
  A replay started by a press on the seek bar is paused before its first animation frame
  runs. The closure has then measured no time, the first animation frame after the pause
  measures an elapsed time of 0, and the five seconds of the pause move nothing.
\<close>

lemma pause_before_first_tick_is_fresh:
  "replayIdxRef (run (afterAnalysis tenFrames)
     [SeekMouseDown, Tick 1000, Tick 6000, TogglePause, Tick 6016]) = 1"
  by (simp add: run_def tenFrames_eq afterAnalysis_def startReplay_def toggleReplayPause_def
      loop_def advance.simps Let_def)

section \<open>Replay: theorems\<close>

text \<open>
  C2 asks the replay to become idle and to stop scheduling once the index is at the last
  stored frame. On a buffer of three frames, a replay from the start that has reached the
  last frame, and has had an animation frame long after, is still replaying with its
  callback scheduled.
\<close>

theorem last_frame_keeps_looping:
  "isReplaying (run (afterAnalysis threeFrames) [Play, Tick 0, Tick 33, Tick 66, Tick 99, Tick 10000])
   \<and> replayIdxRef (run (afterAnalysis threeFrames) [Play, Tick 0, Tick 33, Tick 66, Tick 99, Tick 10000]) + 1
       = length threeFrames
   \<and> replayRaf (run (afterAnalysis threeFrames) [Play, Tick 0, Tick 33, Tick 66, Tick 99, Tick 10000])
       \<noteq> None"
  by (simp add: run_def threeFrames_eq afterAnalysis_def startReplay_def loop_def
      advance.simps Let_def)

text \<open>
  C4 asks each animation frame to select the nearest stored frame whose timestamp does not
  exceed the virtual timestamp. On frames stamped 0, 33 and 66 the first animation frame of
  a replay from the start leaves the virtual timestamp at 0 and selects frame 1, stamped 33;
  frame 0, stamped 0, is the frame that does not exceed it.
\<close>

theorem selected_frame_exceeds_virtual_time:
  "replayIdxRef (run (afterAnalysis threeFrames) [Play, Tick 1000]) = 1
   \<and> map_option lastFrameTime (replayRaf (run (afterAnalysis threeFrames) [Play, Tick 1000]))
       = Some 0
   \<and> timeMs (threeFrames ! 1) = 33 \<and> timeMs (threeFrames ! 0) = 0"
  by (simp add: run_def threeFrames_eq afterAnalysis_def startReplay_def loop_def
      advance.simps Let_def)


text \<open>
  C1 asks that a pause of any length does not make the index jump. Ten frames are stamped
  0, 100, ..., 900. After two animation frames the index is 1; it is still 1 right after
  the pause of five seconds is ended; the next animation frame, 16 ms later, takes it to 9.
  Without the wait the same animation frame leaves it at 1.
\<close>

theorem pause_resume_catches_up:
  "replayIdxRef (run (afterAnalysis tenFrames) beforePause) = 1
   \<and> replayIdxRef (run (afterAnalysis tenFrames) (beforePause @ pausedWait)) = 1
   \<and> \<not> replayPausedRef (run (afterAnalysis tenFrames) (beforePause @ pausedWait))
   \<and> replayIdxRef (run (afterAnalysis tenFrames) (beforePause @ pausedWait @ [Tick 6016])) = 9
   \<and> replayIdxRef (run (afterAnalysis tenFrames)
        (beforePause @ [TogglePause, TogglePause] @ [Tick 1032])) = 1"
  by (simp add: run_def beforePause_def pausedWait_def tenFrames_eq afterAnalysis_def
      startReplay_def toggleReplayPause_def loop_def advance.simps Let_def)



end
